theory Spec2Isabelle
  imports
    Main
    "HOL-Library.Word"
    "HOL-Library.AList"
    "HOL-Library.Char_ord"
    "HOL-Library.List_Lexorder"
    "HOL-Library.Multiset"
begin

section \<open>Data model of the scheduler API (pkg/scheduler/api/job_info.go)\<close>

text \<open>
  Conventions of the embedding.
  \<^item> A Go \<^verbatim>\<open>map[K]V\<close> is the list of its entries, in the order in which a
    \<^verbatim>\<open>range\<close> loop visits them; the keys of a map are distinct. Go leaves the
    iteration order open, so a statement about every job covers every order.
    \<^verbatim>\<open>m[k]\<close> is \<open>map_of m k\<close>, \<^verbatim>\<open>m[k] = v\<close> is \<open>AList.update k v m\<close>,
    \<^verbatim>\<open>delete(m, k)\<close> is \<open>AList.delete k m\<close> and \<^verbatim>\<open>len(m)\<close> is \<open>length m\<close>.
  \<^item> \<^verbatim>\<open>int32\<close> is a 32-bit word read with \<open>sint\<close>; its comparisons are the signed
    ones (\<open>\<le>s\<close>, \<open><s\<close>) and its subtraction wraps around.
  \<^item> Go's \<^verbatim>\<open>int\<close> holds lengths of maps in memory and counters of loop rounds over
    them; these stay far below \<open>2^63\<close>, so \<^verbatim>\<open>int\<close> is \<open>nat\<close> or \<open>int\<close> here. The
    conversion \<^verbatim>\<open>int32(n)\<close> truncates and is \<open>word_of_nat n\<close>.
  \<^item> A pointer to a struct is the struct's value; the pointers of the source are never nil
    in what follows except the result of a map lookup, whose miss is a branch of the model.
  \<^item> Writing to the log (glog) is no effect of the model.
\<close>

type_synonym int32 = "32 word"

text \<open>
  Modelled from the spec: the enumeration \<^verbatim>\<open>TaskStatus\<close> (its declaration in package api
  is not among the sources). The spec lists the ten statuses in this order.
\<close>

datatype TaskStatus =
  Pending | Allocated | Pipelined | Binding | Bound | Running | Releasing | Succeeded
  | Failed | Unknown

text \<open>
  Modelled from the spec: the predicate \<^verbatim>\<open>AllocatedStatus\<close> (declared in package api, not
  among the sources). The spec gives it as the set Allocated, Pipelined, Binding, Bound,
  Running.
\<close>

fun AllocatedStatus :: "TaskStatus \<Rightarrow> bool" where
  "AllocatedStatus Allocated = True"
| "AllocatedStatus Pipelined = True"
| "AllocatedStatus Binding = True"
| "AllocatedStatus Bound = True"
| "AllocatedStatus Running = True"
| "AllocatedStatus _ = False"

text \<open>
  Modelled from the spec: \<^verbatim>\<open>Resource\<close>, a vector over the named scalar dimensions cpu,
  memory and GPU, with \<^verbatim>\<open>EmptyResource\<close>, \<^verbatim>\<open>Add\<close>, \<^verbatim>\<open>Sub\<close>, \<^verbatim>\<open>LessEqual\<close>, \<^verbatim>\<open>Get\<close> and
  \<^verbatim>\<open>Clone\<close> (resource_info.go is not among the sources). The components are integers:
  \<^verbatim>\<open>FitError\<close> tests them for being negative. \<^verbatim>\<open>Sub\<close> reports an underflow when the
  subtrahend is not dominated by the minuend, which the spec calls a programming error.
\<close>

record Resource =
  MilliCPU :: int
  Memory :: int
  MilliGPU :: int

datatype ResourceName = ResourceCPU | ResourceMemory | GPUResourceName

datatype error =
  TaskNotFound  \<comment> \<open>the error value returned by \<^verbatim>\<open>DeleteTaskInfo\<close>\<close>
  | InvalidStatusUpdate  \<comment> \<open>the error value of \<^verbatim>\<open>validateStatusUpdate\<close>\<close>
  | ResourceUnderflow  \<comment> \<open>panic: \<^verbatim>\<open>Sub\<close> of a resource that is not dominated\<close>
  | NilJob  \<comment> \<open>panic: a field of the nil \<^verbatim>\<open>*JobInfo\<close> that a missed map lookup gives\<close>
  | OptionError  \<comment> \<open>the error value returned by \<^verbatim>\<open>CheckOptionOrDie\<close>\<close>

definition EmptyResource :: Resource where
  "EmptyResource = \<lparr>MilliCPU = 0, Memory = 0, MilliGPU = 0\<rparr>"

definition Add :: "Resource \<Rightarrow> Resource \<Rightarrow> Resource" where
  "Add r rr =
     \<lparr>MilliCPU = MilliCPU r + MilliCPU rr, Memory = Memory r + Memory rr,
      MilliGPU = MilliGPU r + MilliGPU rr\<rparr>"

definition LessEqual :: "Resource \<Rightarrow> Resource \<Rightarrow> bool" where
  "LessEqual r rr \<longleftrightarrow>
     MilliCPU r \<le> MilliCPU rr \<and> Memory r \<le> Memory rr \<and> MilliGPU r \<le> MilliGPU rr"

definition Sub :: "Resource \<Rightarrow> Resource \<Rightarrow> error + Resource" where
  "Sub r rr =
     (if LessEqual rr r
      then Inr \<lparr>MilliCPU = MilliCPU r - MilliCPU rr, Memory = Memory r - Memory rr,
                MilliGPU = MilliGPU r - MilliGPU rr\<rparr>
      else Inl ResourceUnderflow)"

fun Get :: "Resource \<Rightarrow> ResourceName \<Rightarrow> int" where
  "Get r ResourceCPU = MilliCPU r"
| "Get r ResourceMemory = Memory r"
| "Get r GPUResourceName = MilliGPU r"

definition Resource_Clone :: "Resource \<Rightarrow> Resource" where
  "Resource_Clone r = \<lparr>MilliCPU = MilliCPU r, Memory = Memory r, MilliGPU = MilliGPU r\<rparr>"

type_synonym TaskID = string
type_synonym JobID = string
type_synonym QueueID = string

text \<open>\<^verbatim>\<open>Pod\<close>, \<^verbatim>\<open>PodGroup\<close> and \<^verbatim>\<open>PDB\<close> point to cluster objects: a number names the object.\<close>

record TaskInfo =
  UID :: TaskID
  Job :: JobID
  Name :: string
  Namespace :: string
  Resreq :: Resource
  InitResreq :: Resource
  NodeName :: string
  Status :: TaskStatus
  Priority :: int32
  VolumeReady :: bool
  Pod :: nat

definition TaskInfo_Clone :: "TaskInfo \<Rightarrow> TaskInfo" where
  "TaskInfo_Clone ti =
     \<lparr>TaskInfo.UID = TaskInfo.UID ti,
      Job = Job ti,
      Name = TaskInfo.Name ti,
      Namespace = TaskInfo.Namespace ti,
      Resreq = Resource_Clone (Resreq ti),
      InitResreq = Resource_Clone (InitResreq ti),
      NodeName = NodeName ti,
      Status = Status ti,
      Priority = TaskInfo.Priority ti,
      VolumeReady = VolumeReady ti,
      Pod = Pod ti\<rparr>"

type_synonym tasksMap = "(TaskID \<times> TaskInfo) list"
type_synonym NodeResourceMap = "(string \<times> Resource) list"

record JobInfo =
  UID :: JobID
  Name :: string
  Namespace :: string
  Queue :: QueueID
  Priority :: int32
  NodeSelector :: "(string \<times> string) list"
  MinAvailable :: int32
  NodesFitDelta :: NodeResourceMap
  TaskStatusIndex :: "(TaskStatus \<times> tasksMap) list"
  Tasks :: tasksMap
  Allocated :: Resource
  TotalRequest :: Resource
  CreationTimestamp :: int
  PodGroup :: "nat option"
  PDB :: "nat option"

definition addTaskIndex :: "JobInfo \<Rightarrow> TaskInfo \<Rightarrow> JobInfo" where
  "addTaskIndex ji ti =
     (let index = (if map_of (TaskStatusIndex ji) (Status ti) = None
                   then AList.update (Status ti) [] (TaskStatusIndex ji)
                   else TaskStatusIndex ji);
          tasks = (case map_of index (Status ti) of Some tasks \<Rightarrow> tasks | None \<Rightarrow> [])
      in ji\<lparr>TaskStatusIndex :=
               AList.update (Status ti) (AList.update (TaskInfo.UID ti) ti tasks) index\<rparr>)"

definition AddTaskInfo :: "JobInfo \<Rightarrow> TaskInfo \<Rightarrow> JobInfo" where
  "AddTaskInfo ji ti =
     (let ji1 = ji\<lparr>Tasks := AList.update (TaskInfo.UID ti) ti (Tasks ji)\<rparr>;
          ji2 = addTaskIndex ji1 ti;
          ji3 = ji2\<lparr>TotalRequest := Add (TotalRequest ji2) (Resreq ti)\<rparr>
      in if AllocatedStatus (Status ti)
         then ji3\<lparr>JobInfo.Allocated := Add (JobInfo.Allocated ji3) (Resreq ti)\<rparr>
         else ji3)"

definition NewJobInfo :: "JobID \<Rightarrow> TaskInfo list \<Rightarrow> JobInfo" where
  "NewJobInfo uid tasks =
     fold (\<lambda>task job. AddTaskInfo job task) tasks
       \<lparr>JobInfo.UID = uid, Name = [], Namespace = [], Queue = [], Priority = 0,
        NodeSelector = [], MinAvailable = 0, NodesFitDelta = [], TaskStatusIndex = [],
        Tasks = [], Allocated = EmptyResource, TotalRequest = EmptyResource,
        CreationTimestamp = 0, PodGroup = None, PDB = None\<rparr>"

definition deleteTaskIndex :: "JobInfo \<Rightarrow> TaskInfo \<Rightarrow> JobInfo" where
  "deleteTaskIndex ji ti =
     (case map_of (TaskStatusIndex ji) (Status ti) of
        Some tasks \<Rightarrow>
          (let tasks' = AList.delete (TaskInfo.UID ti) tasks
           in if length tasks' = 0
              then ji\<lparr>TaskStatusIndex := AList.delete (Status ti) (TaskStatusIndex ji)\<rparr>
              else ji\<lparr>TaskStatusIndex := AList.update (Status ti) tasks' (TaskStatusIndex ji)\<rparr>)
      | None \<Rightarrow> ji)"

text \<open>
  \<^verbatim>\<open>DeleteTaskInfo\<close>: \<open>Inr\<close> is the job after a nil return; \<open>Inl TaskNotFound\<close> is the
  returned error, which leaves the job as it was; \<open>Inl ResourceUnderflow\<close> is the panic of
  \<^verbatim>\<open>Sub\<close>.
\<close>

definition DeleteTaskInfo :: "JobInfo \<Rightarrow> TaskInfo \<Rightarrow> error + JobInfo" where
  "DeleteTaskInfo ji ti =
     (case map_of (Tasks ji) (TaskInfo.UID ti) of
        Some task \<Rightarrow>
          (case Sub (TotalRequest ji) (Resreq task) of
             Inl e \<Rightarrow> Inl e
           | Inr totalRequest \<Rightarrow>
               (case (if AllocatedStatus (Status task)
                      then Sub (JobInfo.Allocated ji) (Resreq task)
                      else Inr (JobInfo.Allocated ji)) of
                  Inl e \<Rightarrow> Inl e
                | Inr allocated \<Rightarrow>
                    Inr (deleteTaskIndex
                          (ji\<lparr>TotalRequest := totalRequest, JobInfo.Allocated := allocated,
                               Tasks := AList.delete (TaskInfo.UID task) (Tasks ji)\<rparr>)
                          task)))
      | None \<Rightarrow> Inl TaskNotFound)"

text \<open>
  \<^verbatim>\<open>UpdateTaskStatus\<close>. The guard \<^verbatim>\<open>validateStatusUpdate\<close> is not among the sources and
  the spec does not list the legal transitions, so it is the parameter \<open>validate\<close>. The
  error value of \<^verbatim>\<open>DeleteTaskInfo\<close> is dropped by the source; a panic is not. The task
  that is added carries the new status.
\<close>

definition UpdateTaskStatus ::
  "(TaskStatus \<Rightarrow> TaskStatus \<Rightarrow> error option) \<Rightarrow> JobInfo \<Rightarrow> TaskInfo \<Rightarrow> TaskStatus
    \<Rightarrow> error + JobInfo" where
  "UpdateTaskStatus validate ji task status =
     (case validate (Status task) status of
        Some err \<Rightarrow> Inl err
      | None \<Rightarrow>
          (case DeleteTaskInfo ji task of
             Inl ResourceUnderflow \<Rightarrow> Inl ResourceUnderflow
           | Inl _ \<Rightarrow> Inr (AddTaskInfo ji (task\<lparr>Status := status\<rparr>))
           | Inr ji' \<Rightarrow> Inr (AddTaskInfo ji' (task\<lparr>Status := status\<rparr>))))"

definition JobInfo_Clone :: "JobInfo \<Rightarrow> JobInfo" where
  "JobInfo_Clone ji =
     (let info = \<lparr>JobInfo.UID = JobInfo.UID ji, Name = JobInfo.Name ji,
                  Namespace = JobInfo.Namespace ji, Queue = Queue ji,
                  Priority = JobInfo.Priority ji, NodeSelector = [],
                  MinAvailable = MinAvailable ji, NodesFitDelta = [], TaskStatusIndex = [],
                  Tasks = [], Allocated = EmptyResource, TotalRequest = EmptyResource,
                  CreationTimestamp = CreationTimestamp ji, PodGroup = PodGroup ji,
                  PDB = PDB ji\<rparr>;
          info1 = fold (\<lambda>(k, v) info. info\<lparr>NodeSelector := AList.update k v (NodeSelector info)\<rparr>)
                    (NodeSelector ji) info
      in fold (\<lambda>(_, task) info. AddTaskInfo info (TaskInfo_Clone task)) (Tasks ji) info1)"

subsection \<open>Formatting\<close>

text \<open>The verbs \<^verbatim>\<open>%d\<close> and \<^verbatim>\<open>%v\<close> of \<^verbatim>\<open>fmt.Sprintf\<close> on an integer: its decimal digits.\<close>

definition digit_char :: "nat \<Rightarrow> char" where
  "digit_char d = ''0123456789'' ! d"

function string_of_nat :: "nat \<Rightarrow> string" where
  "string_of_nat n =
     (if n < 10 then [digit_char n] else string_of_nat (n div 10) @ [digit_char (n mod 10)])"
  by pat_completeness auto
termination
  by (relation "measure id") auto

declare string_of_nat.simps [simp del]

definition string_of_int :: "int \<Rightarrow> string" where
  "string_of_int i =
     (if i < 0 then CHR ''-'' # string_of_nat (nat (- i)) else string_of_nat (nat i))"

fun Join :: "string list \<Rightarrow> string \<Rightarrow> string" where
  "Join [] sep = []"
| "Join [s] sep = s"
| "Join (s # ss) sep = s @ sep @ Join ss sep"

subsection \<open>FitError\<close>

text \<open>\<^verbatim>\<open>reasons[k]++\<close> on a \<^verbatim>\<open>map[string]int\<close>: a missing key reads as 0.\<close>

definition incr :: "(string \<times> nat) list \<Rightarrow> string \<Rightarrow> (string \<times> nat) list" where
  "incr reasons k =
     AList.update k (case map_of reasons k of None \<Rightarrow> 1 | Some c \<Rightarrow> c + 1) reasons"

definition countReasons :: "Resource \<Rightarrow> (string \<times> nat) list \<Rightarrow> (string \<times> nat) list" where
  "countReasons v reasons =
     (let r1 = (if Get v ResourceCPU < 0 then incr reasons ''cpu'' else reasons);
          r2 = (if Get v ResourceMemory < 0 then incr r1 ''memory'' else r1)
      in if Get v GPUResourceName < 0 then incr r2 ''GPU'' else r2)"

text \<open>\<^verbatim>\<open>sort.Strings\<close> orders strings byte by byte, which is the order of \<open>char list\<close>.\<close>

definition sortReasonsHistogram :: "(string \<times> nat) list \<Rightarrow> string list" where
  "sortReasonsHistogram reasons =
     sort (map (\<lambda>(k, v). string_of_int (int v) @ '' insufficient '' @ k) reasons)"

definition FitError :: "JobInfo \<Rightarrow> string" where
  "FitError ji =
     (if length (NodesFitDelta ji) = 0 then ''0 nodes are available''
      else
        (let reasons = fold (\<lambda>(_, v) reasons. countReasons v reasons) (NodesFitDelta ji) []
         in ''0/'' @ string_of_int (int (length (NodesFitDelta ji)))
            @ '' nodes are available, '' @ Join (sortReasonsHistogram reasons) '', ''
            @ ''.''))"

subsection \<open>FitError as the spec words it\<close>

text \<open>
  The number of nodes whose delta for a resource is negative, and the message built from
  the three numbers: a category appears only when its number is not zero, and the
  category strings are sorted.
\<close>

definition insufficient :: "ResourceName \<Rightarrow> NodeResourceMap \<Rightarrow> nat" where
  "insufficient name nodes = length (filter (\<lambda>(node, delta). Get delta name < 0) nodes)"

definition spec_FitError :: "JobInfo \<Rightarrow> string" where
  "spec_FitError J =
     (if NodesFitDelta J = [] then ''0 nodes are available''
      else
        (let k = insufficient ResourceCPU (NodesFitDelta J);
             m = insufficient ResourceMemory (NodesFitDelta J);
             g = insufficient GPUResourceName (NodesFitDelta J);
             categories =
               (if k \<noteq> 0 then [string_of_int (int k) @ '' insufficient cpu''] else [])
               @ (if m \<noteq> 0 then [string_of_int (int m) @ '' insufficient memory''] else [])
               @ (if g \<noteq> 0 then [string_of_int (int g) @ '' insufficient GPU''] else [])
         in ''0/'' @ string_of_int (int (length (NodesFitDelta J)))
            @ '' nodes are available, '' @ Join (sort categories) '', '' @ ''.''))"

text \<open>
  What the loop of \<^verbatim>\<open>FitError\<close> keeps true of the map \<^verbatim>\<open>reasons\<close>: its keys are among
  the three categories and no entry is zero. \<open>cnt\<close> reads the map as Go does.
\<close>

definition cnt :: "(string \<times> nat) list \<Rightarrow> string \<Rightarrow> nat" where
  "cnt reasons k = (case map_of reasons k of None \<Rightarrow> 0 | Some c \<Rightarrow> c)"

definition category :: "string \<Rightarrow> bool" where
  "category k \<longleftrightarrow> k = ''cpu'' \<or> k = ''memory'' \<or> k = ''GPU''"

definition reasons_ok :: "(string \<times> nat) list \<Rightarrow> bool" where
  "reasons_ok reasons \<longleftrightarrow>
     distinct (map fst reasons) \<and> (\<forall>(k, c) \<in> set reasons. category k \<and> 0 < c)"

section \<open>The gang plugin (pkg/scheduler/plugins/gang)\<close>

definition readyTaskNum :: "JobInfo \<Rightarrow> int32" where
  "readyTaskNum job =
     word_of_nat
       (fold (\<lambda>(status, tasks) occupid.
                if AllocatedStatus status \<or> status = Succeeded \<or> status = Pipelined
                then occupid + length tasks else occupid)
          (TaskStatusIndex job) 0)"

definition validTaskNum :: "JobInfo \<Rightarrow> int32" where
  "validTaskNum job =
     word_of_nat
       (fold (\<lambda>(status, tasks) occupied.
                if AllocatedStatus status \<or> status = Succeeded \<or> status = Pipelined
                   \<or> status = Pending
                then occupied + length tasks else occupied)
          (TaskStatusIndex job) 0)"

definition jobReady :: "JobInfo \<Rightarrow> bool" where
  "jobReady job = (let occupied = readyTaskNum job in MinAvailable job \<le>s occupied)"

text \<open>
  Modelled from the spec: the reasons and the condition type of package v1alpha1 and the
  structs \<^verbatim>\<open>ValidateResult\<close> and \<^verbatim>\<open>PodGroupCondition\<close> (their declarations are not
  among the sources). The constants are constructors, since the sources do not give the
  strings behind them.
\<close>

datatype Reason = NoReason | NotEnoughPodsReason | NotEnoughResourcesReason

datatype PodGroupConditionType = PodGroupUnschedulableType

datatype ConditionStatus = ConditionTrue | ConditionFalse | ConditionUnknown

record ValidateResult =
  Pass :: bool
  Reason :: Reason
  Message :: string

record PodGroupCondition =
  Type :: PodGroupConditionType
  Status :: ConditionStatus
  LastTransitionTime :: int
  TransitionID :: string
  Reason :: Reason
  Message :: string

text \<open>
  \<^verbatim>\<open>validJobFn\<close> on a \<^verbatim>\<open>*JobInfo\<close>; \<open>None\<close> is the nil result. The branch of the source
  for an argument of another type renders that argument with \<^verbatim>\<open>%v\<close> and is outside
  this function's type.
\<close>

definition validJobFn :: "JobInfo \<Rightarrow> ValidateResult option" where
  "validJobFn job =
     (let vtn = validTaskNum job
      in if vtn <s MinAvailable job
         then Some \<lparr>ValidateResult.Pass = False, Reason = NotEnoughPodsReason,
                     Message = ''Not enough valid tasks for gang-scheduling, valid: ''
                       @ string_of_int (sint vtn) @ '', min: ''
                       @ string_of_int (sint (MinAvailable job))\<rparr>
         else None)"

text \<open>
  \<^verbatim>\<open>preemptableFn\<close>: the loop over the candidates, with the slice \<^verbatim>\<open>victims\<close> as
  accumulator. \<^verbatim>\<open>ssn.Jobs[preemptee.Job]\<close> is nil when the job is not in the session, and
  \<^verbatim>\<open>readyTaskNum\<close> then reads a field of nil.
\<close>

fun preemptableLoop ::
  "(JobID \<times> JobInfo) list \<Rightarrow> TaskInfo list \<Rightarrow> TaskInfo list \<Rightarrow> error + TaskInfo list" where
  "preemptableLoop jobs [] victims = Inr victims"
| "preemptableLoop jobs (preemptee # preemptees) victims =
     (case map_of jobs (Job preemptee) of
        None \<Rightarrow> Inl NilJob
      | Some job \<Rightarrow>
          (let occupid = readyTaskNum job;
               preemptable = (MinAvailable job \<le>s occupid - 1 \<or> MinAvailable job = 1)
           in if \<not> preemptable then preemptableLoop jobs preemptees victims
              else preemptableLoop jobs preemptees (victims @ [preemptee])))"

definition preemptableFn ::
  "(JobID \<times> JobInfo) list \<Rightarrow> TaskInfo \<Rightarrow> TaskInfo list \<Rightarrow> error + TaskInfo list" where
  "preemptableFn jobs preemptor preemptees = preemptableLoop jobs preemptees []"

definition jobOrderFn :: "JobInfo \<Rightarrow> JobInfo \<Rightarrow> int" where
  "jobOrderFn lv rv =
     (let lReady = jobReady lv; rReady = jobReady rv
      in if lReady \<and> rReady then 0
         else if lReady then 1
         else if rReady then - 1
         else 0)"

text \<open>
  Modelled from the spec: the session (package framework is not among the sources), as far
  as the plugin uses it: its id, its jobs and the tables of registered functions, one
  entry per plugin name. The closures of the source read \<^verbatim>\<open>ssn.Jobs\<close> when they are
  called, so a registered victim filter takes the jobs as an argument.
\<close>

type_synonym victimsFn =
  "(JobID \<times> JobInfo) list \<Rightarrow> TaskInfo \<Rightarrow> TaskInfo list \<Rightarrow> error + TaskInfo list"

record Session =
  UID :: string
  Jobs :: "(JobID \<times> JobInfo) list"
  jobOrderFns :: "(string \<times> (JobInfo \<Rightarrow> JobInfo \<Rightarrow> int)) list"
  jobReadyFns :: "(string \<times> (JobInfo \<Rightarrow> bool)) list"
  jobValidFns :: "(string \<times> (JobInfo \<Rightarrow> ValidateResult option)) list"
  preemptableFns :: "(string \<times> victimsFn) list"
  reclaimableFns :: "(string \<times> victimsFn) list"

definition AddJobValidFn ::
  "string \<Rightarrow> (JobInfo \<Rightarrow> ValidateResult option) \<Rightarrow> Session \<Rightarrow> Session" where
  "AddJobValidFn name fn ssn = ssn\<lparr>jobValidFns := AList.update name fn (jobValidFns ssn)\<rparr>"

definition AddReclaimableFn :: "string \<Rightarrow> victimsFn \<Rightarrow> Session \<Rightarrow> Session" where
  "AddReclaimableFn name fn ssn =
     ssn\<lparr>reclaimableFns := AList.update name fn (reclaimableFns ssn)\<rparr>"

definition AddPreemptableFn :: "string \<Rightarrow> victimsFn \<Rightarrow> Session \<Rightarrow> Session" where
  "AddPreemptableFn name fn ssn =
     ssn\<lparr>preemptableFns := AList.update name fn (preemptableFns ssn)\<rparr>"

definition AddJobOrderFn ::
  "string \<Rightarrow> (JobInfo \<Rightarrow> JobInfo \<Rightarrow> int) \<Rightarrow> Session \<Rightarrow> Session" where
  "AddJobOrderFn name fn ssn = ssn\<lparr>jobOrderFns := AList.update name fn (jobOrderFns ssn)\<rparr>"

definition AddJobReadyFn :: "string \<Rightarrow> (JobInfo \<Rightarrow> bool) \<Rightarrow> Session \<Rightarrow> Session" where
  "AddJobReadyFn name fn ssn = ssn\<lparr>jobReadyFns := AList.update name fn (jobReadyFns ssn)\<rparr>"

definition gang_Name :: string where
  "gang_Name = ''gang''"

definition OnSessionOpen :: "Session \<Rightarrow> Session" where
  "OnSessionOpen ssn =
     (let ssn1 = AddJobValidFn gang_Name validJobFn ssn;
          ssn2 = AddReclaimableFn gang_Name preemptableFn ssn1;
          ssn3 = AddPreemptableFn gang_Name preemptableFn ssn2;
          ssn4 = AddJobOrderFn gang_Name jobOrderFn ssn3
      in AddJobReadyFn gang_Name jobReady ssn4)"

text \<open>
  \<^verbatim>\<open>OnSessionClose\<close>. Its effects are calls of the metrics package and of
  \<^verbatim>\<open>ssn.UpdateJobCondition\<close>; the model returns them in the order of the calls. The error
  that \<^verbatim>\<open>UpdateJobCondition\<close> may return is only logged. \<open>now k\<close> is what the clock
  (\<^verbatim>\<open>metav1.Now()\<close>) shows at its reading number \<open>k\<close>, counted from 0; the loop reads it
  once for each job that is not ready, so the number of the next reading is
  \<^verbatim>\<open>unScheduleJobCount\<close>.
\<close>

datatype event =
  UpdateUnscheduleTaskCount string int
  | RegisterJobRetries string
  | UpdateJobCondition JobInfo PodGroupCondition
  | UpdateUnscheduleJobCount int

definition unschedulableMessage :: "JobInfo \<Rightarrow> string" where
  "unschedulableMessage job =
     string_of_int (sint (MinAvailable job - readyTaskNum job)) @ ''/''
       @ string_of_int (int (length (Tasks job))) @ '' tasks in gang unschedulable: ''
       @ FitError job"

fun closeLoop ::
  "string \<Rightarrow> (nat \<Rightarrow> int) \<Rightarrow> (JobID \<times> JobInfo) list \<Rightarrow> nat \<times> event list
    \<Rightarrow> nat \<times> event list" where
  "closeLoop uid now [] st = st"
| "closeLoop uid now ((_, job) # jobs) (unScheduleJobCount, calls) =
     (if \<not> jobReady job
      then
        (let unreadyTaskCount = MinAvailable job - readyTaskNum job;
             msg = unschedulableMessage job;
             jc = \<lparr>PodGroupCondition.Type = PodGroupUnschedulableType, Status = ConditionTrue,
                   LastTransitionTime = now unScheduleJobCount, TransitionID = uid,
                   Reason = NotEnoughResourcesReason, Message = msg\<rparr>
         in closeLoop uid now jobs
              (unScheduleJobCount + 1,
               calls @ [UpdateUnscheduleTaskCount (JobInfo.Name job) (sint unreadyTaskCount),
                        RegisterJobRetries (JobInfo.Name job),
                        UpdateJobCondition job jc]))
      else closeLoop uid now jobs (unScheduleJobCount, calls))"

definition OnSessionClose :: "Session \<Rightarrow> (nat \<Rightarrow> int) \<Rightarrow> event list" where
  "OnSessionClose ssn now =
     (case closeLoop (Session.UID ssn) now (Jobs ssn) (0, []) of
        (unScheduleJobCount, calls) \<Rightarrow>
          calls @ [UpdateUnscheduleJobCount (int unScheduleJobCount)])"

section \<open>Server options (cmd/kube-batch/app/options/options.go)\<close>

record ServerOption =
  Master :: string
  Kubeconfig :: string
  SchedulerName :: string
  SchedulerConf :: string
  SchedulePeriod :: int
  EnableLeaderElection :: bool
  LockObjectNamespace :: string
  DefaultQueue :: string
  PrintVersion :: bool
  ListenAddress :: string

text \<open>
  \<^verbatim>\<open>CheckOptionOrDie\<close> has a pointer receiver: the model returns the options as the call
  leaves them, with the error (\<open>None\<close> is nil).
\<close>

definition CheckOptionOrDie :: "ServerOption \<Rightarrow> ServerOption \<times> error option" where
  "CheckOptionOrDie s =
     (if EnableLeaderElection s \<and> LockObjectNamespace s = []
      then (s, Some OptionError)
      else (s, None))"

section \<open>Jobs of the seed scenarios\<close>

text \<open>
  The jobs on which the statements below are evaluated. A task requests \<open>cpu\<close> units of
  cpu and nothing else; a job is built by \<^verbatim>\<open>NewJobInfo\<close> and gets its name and its
  \<^verbatim>\<open>MinAvailable\<close> as \<^verbatim>\<open>SetPodGroup\<close> sets them.
\<close>

definition testTask :: "TaskID \<Rightarrow> JobID \<Rightarrow> TaskStatus \<Rightarrow> int \<Rightarrow> TaskInfo" where
  "testTask uid job status cpu =
     \<lparr>TaskInfo.UID = uid, Job = job, Name = uid, Namespace = ''ns'',
      Resreq = \<lparr>MilliCPU = cpu, Memory = 0, MilliGPU = 0\<rparr>,
      InitResreq = \<lparr>MilliCPU = cpu, Memory = 0, MilliGPU = 0\<rparr>,
      NodeName = [], Status = status, Priority = 1, VolumeReady = False, Pod = 0\<rparr>"

definition testJob :: "JobID \<Rightarrow> int32 \<Rightarrow> TaskInfo list \<Rightarrow> JobInfo" where
  "testJob uid minMember tasks =
     (NewJobInfo uid tasks)\<lparr>JobInfo.Name := uid, Namespace := ''ns'', MinAvailable := minMember\<rparr>"

text \<open>Seed scenario 2: \<^verbatim>\<open>MinAvailable\<close> is 3 and there are only two tasks, both pending.\<close>

definition shortfallJob :: JobInfo where
  "shortfallJob =
     testJob ''J'' 3 [testTask ''p1'' ''J'' Pending 1, testTask ''p2'' ''J'' Pending 1]"

text \<open>
  Seed scenarios 3 and 4: job A needs both of its running tasks, job B needs one task and
  has two running.
\<close>

definition gangJobA :: JobInfo where
  "gangJobA =
     testJob ''A'' 2 [testTask ''T1'' ''A'' Running 1, testTask ''T2'' ''A'' Running 1]"

definition gangJobB :: JobInfo where
  "gangJobB =
     testJob ''B'' 1 [testTask ''T3'' ''B'' Running 1, testTask ''T4'' ''B'' Running 1]"

text \<open>
  A job with \<open>n\<close> pending tasks, written down as the struct that \<open>n\<close> calls of
  \<^verbatim>\<open>AddTaskInfo\<close> build; the id of task \<open>k\<close> is the letter a repeated \<open>k\<close> times.
\<close>

definition pendingTasks :: "nat \<Rightarrow> tasksMap" where
  "pendingTasks n =
     map (\<lambda>k. (replicate k CHR ''a'', testTask (replicate k CHR ''a'') ''P'' Pending 0)) [0..<n]"

definition pendingJob :: "nat \<Rightarrow> JobInfo" where
  "pendingJob n =
     \<lparr>JobInfo.UID = ''P'', Name = ''P'', Namespace = ''ns'', Queue = [], Priority = 0,
      NodeSelector = [], MinAvailable = 0, NodesFitDelta = [],
      TaskStatusIndex = [(Pending, pendingTasks n)], Tasks = pendingTasks n,
      Allocated = EmptyResource, TotalRequest = EmptyResource,
      CreationTimestamp = 0, PodGroup = None, PDB = None\<rparr>"

text \<open>Seed scenario 6: the deltas of three nodes.\<close>

definition nodes3 :: NodeResourceMap where
  "nodes3 =
     [(''n1'', \<lparr>MilliCPU = - 1, Memory = 0, MilliGPU = 0\<rparr>),
      (''n2'', \<lparr>MilliCPU = 0, Memory = - 2, MilliGPU = 0\<rparr>),
      (''n3'', \<lparr>MilliCPU = - 1, Memory = 0, MilliGPU = - 1\<rparr>)]"

definition unfitJob :: JobInfo where
  "unfitJob = shortfallJob\<lparr>NodesFitDelta := nodes3\<rparr>"

definition testSession :: "(JobID \<times> JobInfo) list \<Rightarrow> Session" where
  "testSession jobs =
     \<lparr>Session.UID = ''ssn-1'', Jobs = jobs, jobOrderFns = [], jobReadyFns = [],
      jobValidFns = [], preemptableFns = [], reclaimableFns = []\<rparr>"

section \<open>Properties of the server options\<close>

text \<open>
  Claim C9. \<^verbatim>\<open>CheckOptionOrDie\<close> returns an error exactly when leader election is enabled
  and the namespace of the lock object is the empty string; in every other case it returns
  nil; the options are the same after the call in all cases.
\<close>

theorem CheckOptionOrDie_error_iff:
  "(snd (CheckOptionOrDie s) \<noteq> None) = (EnableLeaderElection s \<and> LockObjectNamespace s = [])
   \<and> snd (CheckOptionOrDie s) =
       (if EnableLeaderElection s \<and> LockObjectNamespace s = [] then Some OptionError else None)
   \<and> fst (CheckOptionOrDie s) = s"
  by (simp add: CheckOptionOrDie_def)

section \<open>Properties of the gang plugin\<close>

text \<open>
  Claim C3. A job is ready when \<^verbatim>\<open>readyTaskNum\<close> is at least \<^verbatim>\<open>MinAvailable\<close>. The job
  order function returns 0 when both jobs are ready or both are not, 1 (the left job sorts
  after the right one) when only the left job is ready, and -1 (the left job sorts first)
  when only the right job is ready.
\<close>

theorem jobOrderFn_not_ready_first:
  "jobReady l = (MinAvailable l \<le>s readyTaskNum l)
   \<and> jobOrderFn l r = (if jobReady l = jobReady r then 0 else if jobReady l then 1 else - 1)"
  by (simp add: jobOrderFn_def jobReady_def Let_def)

subsection \<open>Counting the tasks of the status index\<close>

lemma count_fold:
  "fold (\<lambda>(status, tasks) n. if P status then n + length tasks else n) index n0 =
   n0 + sum_list (map (\<lambda>(status, tasks). length tasks)
                   (filter (\<lambda>(status, tasks). P status) index))"
  by (induction index arbitrary: n0) (auto simp: case_prod_unfold)

lemma sum_filter_le:
  "sum_list (map f (filter P xs)) \<le> (sum_list (map f xs) :: nat)"
  by (induction xs) auto

lemma sum_filter_mono:
  "(\<And>x. P x \<Longrightarrow> Q x) \<Longrightarrow>
   sum_list (map f (filter P xs)) \<le> (sum_list (map f (filter Q xs)) :: nat)"
  by (induction xs) auto

lemma sint_word_of_nat_32:
  "n < 2 ^ 31 \<Longrightarrow> sint (word_of_nat n :: 32 word) = int n"
  by (simp add: signed_of_nat signed_take_bit_int_eq_self)

lemma readyTaskNum_count:
  "readyTaskNum job =
     word_of_nat (sum_list (map (\<lambda>(status, tasks). length tasks)
       (filter (\<lambda>(status, tasks).
                  AllocatedStatus status \<or> status = Succeeded \<or> status = Pipelined)
          (TaskStatusIndex job))))"
  unfolding readyTaskNum_def by (subst count_fold) simp

lemma validTaskNum_count:
  "validTaskNum job =
     word_of_nat (sum_list (map (\<lambda>(status, tasks). length tasks)
       (filter (\<lambda>(status, tasks).
                  AllocatedStatus status \<or> status = Succeeded \<or> status = Pipelined
                  \<or> status = Pending)
          (TaskStatusIndex job))))"
  unfolding validTaskNum_def by (subst count_fold) simp

lemmas scenario_defs =
  testJob_def testTask_def NewJobInfo_def AddTaskInfo_def addTaskIndex_def Let_def
  EmptyResource_def Add_def

lemmas format_defs = string_of_int_def string_of_nat.simps digit_char_def

subsection \<open>The preemption gate\<close>

lemma preemptableLoop_filter:
  "\<forall>t \<in> set preemptees. map_of jobs (Job t) \<noteq> None \<Longrightarrow>
   preemptableLoop jobs preemptees victims =
     Inr (victims @
          filter (\<lambda>t. case map_of jobs (Job t) of
                         Some J \<Rightarrow> MinAvailable J \<le>s readyTaskNum J - 1 \<or> MinAvailable J = 1
                       | None \<Rightarrow> False) preemptees)"
  by (induction preemptees arbitrary: victims) (auto simp: Let_def)

text \<open>A candidate whose job is not in the session makes the call panic.\<close>

lemma preemptableLoop_nil_job:
  "\<exists>t \<in> set preemptees. map_of jobs (Job t) = None \<Longrightarrow>
   preemptableLoop jobs preemptees victims = Inl NilJob"
  by (induction preemptees arbitrary: victims) (auto simp: Let_def split: option.splits)

text \<open>
  Claim C1. When the job of every candidate is in the session's job map, the gang plugin's
  victim filter returns the candidates, in their order, whose owning job \<open>J\<close> has
  \<^verbatim>\<open>MinAvailable(J) <= readyTaskNum(J) - 1\<close> or \<^verbatim>\<open>MinAvailable(J) == 1\<close>, and no other
  candidate; the plugin registers this one function under its name both as the
  preemptable and as the reclaimable function.
\<close>

theorem preemptableFn_gang_gate:
  assumes "\<forall>t \<in> set preemptees. map_of jobs (Job t) \<noteq> None"
  shows "preemptableFn jobs preemptor preemptees =
           Inr (filter (\<lambda>t. case map_of jobs (Job t) of
                              Some J \<Rightarrow>
                                MinAvailable J \<le>s readyTaskNum J - 1 \<or> MinAvailable J = 1
                            | None \<Rightarrow> False) preemptees)
         \<and> map_of (preemptableFns (OnSessionOpen ssn)) ''gang'' = Some preemptableFn
         \<and> map_of (reclaimableFns (OnSessionOpen ssn)) ''gang'' = Some preemptableFn"
  using preemptableLoop_filter [OF assms, of "[]"]
  by (simp add: preemptableFn_def OnSessionOpen_def Let_def AddJobValidFn_def
      AddReclaimableFn_def AddPreemptableFn_def AddJobOrderFn_def AddJobReadyFn_def
      gang_Name_def update_conv')

text \<open>
  Seed scenarios 3 and 4: T1 of job A (\<^verbatim>\<open>MinAvailable\<close> 2, two ready tasks) is filtered
  out, T3 of job B (\<^verbatim>\<open>MinAvailable\<close> 1) is kept.
\<close>

theorem preemptableFn_gang_gate_witness:
  "preemptableFn [(''A'', gangJobA), (''B'', gangJobB)] (testTask ''T9'' ''C'' Pending 1)
     [testTask ''T1'' ''A'' Running 1, testTask ''T3'' ''B'' Running 1]
     = Inr [testTask ''T3'' ''B'' Running 1]
   \<and> map_of (preemptableFns (OnSessionOpen (testSession []))) ''gang'' = Some preemptableFn
   \<and> map_of (reclaimableFns (OnSessionOpen (testSession []))) ''gang'' = Some preemptableFn"
  using preemptableFn_gang_gate
    [of "[testTask ''T1'' ''A'' Running 1, testTask ''T3'' ''B'' Running 1]"
        "[(''A'', gangJobA), (''B'', gangJobB)]" "testTask ''T9'' ''C'' Pending 1"
        "testSession []"]
  by (simp add: gangJobA_def gangJobB_def scenario_defs readyTaskNum_def word_sle_eq)

subsection \<open>Validity and readiness\<close>

text \<open>
  Claim C2, as the code has it. \<^verbatim>\<open>validTaskNum\<close> is the number, converted to \<^verbatim>\<open>int32\<close>,
  of the tasks in the buckets of the status index whose status is in \<^verbatim>\<open>AllocatedStatus\<close>
  or is Succeeded, Pipelined or Pending. The job-valid function returns a failing result
  with reason \<^verbatim>\<open>NotEnoughPods\<close> exactly when \<^verbatim>\<open>validTaskNum\<close> is less than
  \<^verbatim>\<open>MinAvailable\<close>, and nil otherwise; the message of the failing result is
  \<^verbatim>\<open>Not enough valid tasks for gang-scheduling, valid: X, min: Y\<close>, with a blank after
  each colon and X, Y the two numbers in decimal.
\<close>

theorem validJobFn_not_enough_pods:
  "validJobFn J =
     (if validTaskNum J <s MinAvailable J
      then Some \<lparr>ValidateResult.Pass = False, Reason = NotEnoughPodsReason,
                  Message = ''Not enough valid tasks for gang-scheduling, valid: ''
                    @ string_of_int (sint (validTaskNum J)) @ '', min: ''
                    @ string_of_int (sint (MinAvailable J))\<rparr>
      else None)
   \<and> validTaskNum J =
       word_of_nat (sum_list (map (\<lambda>(status, tasks). length tasks)
         (filter (\<lambda>(status, tasks).
                    AllocatedStatus status \<or> status = Succeeded \<or> status = Pipelined
                    \<or> status = Pending)
            (TaskStatusIndex J))))"
  using validTaskNum_count [of J] by (simp add: validJobFn_def Let_def)

text \<open>
  The claim as stated fails on the job of seed scenario 2 (two valid tasks, \<^verbatim>\<open>MinAvailable\<close>
  3): the message of the result is not the one of the claim's pattern.
\<close>

theorem validJobFn_message_counterexample:
  "validTaskNum shortfallJob = 2 \<and> MinAvailable shortfallJob = 3
   \<and> validJobFn shortfallJob =
       Some \<lparr>ValidateResult.Pass = False, Reason = NotEnoughPodsReason,
              Message = ''Not enough valid tasks for gang-scheduling, valid: 2, min: 3''\<rparr>
   \<and> validJobFn shortfallJob \<noteq>
       Some \<lparr>ValidateResult.Pass = False, Reason = NotEnoughPodsReason,
              Message = ''Not enough valid tasks for gang-scheduling, valid:2, min:3''\<rparr>"
  by (simp add: shortfallJob_def scenario_defs validJobFn_def validTaskNum_def
      word_sless_alt format_defs)

text \<open>
  Claim C10, as the code has it. For a job whose status index holds fewer than \<open>2^31\<close>
  tasks, so that the counts fit \<^verbatim>\<open>int32\<close>, \<^verbatim>\<open>validTaskNum\<close> is at least \<^verbatim>\<open>readyTaskNum\<close>,
  and a job that the readiness predicate accepts passes the validity check.
\<close>

theorem validTaskNum_ge_readyTaskNum:
  assumes "sum_list (map (\<lambda>(status, tasks). length tasks) (TaskStatusIndex J)) < 2 ^ 31"
  shows "readyTaskNum J \<le>s validTaskNum J \<and> (jobReady J \<longrightarrow> validJobFn J = None)"
proof -
  let ?len = "\<lambda>(status :: TaskStatus, tasks :: tasksMap). length tasks"
  let ?r = "sum_list (map ?len (filter (\<lambda>(status, tasks).
      AllocatedStatus status \<or> status = Succeeded \<or> status = Pipelined) (TaskStatusIndex J)))"
  let ?v = "sum_list (map ?len (filter (\<lambda>(status, tasks).
      AllocatedStatus status \<or> status = Succeeded \<or> status = Pipelined \<or> status = Pending)
      (TaskStatusIndex J)))"
  have rv: "?r \<le> ?v" by (rule sum_filter_mono) auto
  have "?v \<le> sum_list (map ?len (TaskStatusIndex J))" by (rule sum_filter_le)
  with assms have v: "?v < 2 ^ 31" by simp
  with rv have r: "?r < 2 ^ 31" by simp
  have sr: "sint (readyTaskNum J) = int ?r"
    unfolding readyTaskNum_count using r by (rule sint_word_of_nat_32)
  have sv: "sint (validTaskNum J) = int ?v"
    unfolding validTaskNum_count using v by (rule sint_word_of_nat_32)
  have le: "readyTaskNum J \<le>s validTaskNum J"
    using rv by (simp add: word_sle_eq sr sv)
  moreover have "validJobFn J = None" if "jobReady J"
  proof -
    from that have "sint (MinAvailable J) \<le> sint (readyTaskNum J)"
      by (simp add: jobReady_def word_sle_eq)
    with le have "\<not> validTaskNum J <s MinAvailable J"
      by (simp add: word_sle_eq word_sless_alt)
    then show ?thesis by (simp add: validJobFn_def)
  qed
  ultimately show ?thesis by blast
qed

theorem validTaskNum_ge_readyTaskNum_witness:
  "readyTaskNum gangJobA \<le>s validTaskNum gangJobA \<and> jobReady gangJobA
   \<and> validJobFn gangJobA = None"
proof -
  have size: "sum_list (map (\<lambda>(status, tasks). length tasks) (TaskStatusIndex gangJobA))
      < 2 ^ 31"
    by (simp add: gangJobA_def scenario_defs)
  have ready: "jobReady gangJobA"
    by (simp add: gangJobA_def scenario_defs jobReady_def readyTaskNum_def word_sle_eq)
  from validTaskNum_ge_readyTaskNum [OF size] ready show ?thesis by simp
qed

text \<open>
  The conversion to \<^verbatim>\<open>int32\<close> wraps around at \<open>2^31\<close> tasks: the job with \<open>2^31\<close>
  pending tasks (its task ids are distinct) has \<^verbatim>\<open>readyTaskNum\<close> 0 and \<^verbatim>\<open>validTaskNum\<close>
  \<open>- 2^31\<close>; with \<^verbatim>\<open>MinAvailable\<close> 0 it is ready and fails the validity check.
\<close>

lemma distinct_pendingTasks: "distinct (map fst (pendingTasks n))"
  by (auto simp: pendingTasks_def distinct_map o_def inj_on_def dest: arg_cong [where f = length])

theorem validTaskNum_ge_readyTaskNum_counterexample:
  "distinct (map fst (Tasks (pendingJob (2 ^ 31))))
   \<and> length (Tasks (pendingJob (2 ^ 31))) = 2 ^ 31
   \<and> readyTaskNum (pendingJob (2 ^ 31)) = 0
   \<and> sint (validTaskNum (pendingJob (2 ^ 31))) = - (2 ^ 31)
   \<and> \<not> readyTaskNum (pendingJob (2 ^ 31)) \<le>s validTaskNum (pendingJob (2 ^ 31))
   \<and> jobReady (pendingJob (2 ^ 31))
   \<and> validJobFn (pendingJob (2 ^ 31)) \<noteq> None"
proof -
  have "distinct (map fst (Tasks (pendingJob (2 ^ 31))))"
    using distinct_pendingTasks [of "2 ^ 31"] by (simp add: pendingJob_def)
  moreover have "length (Tasks (pendingJob (2 ^ 31))) = 2 ^ 31"
    by (simp add: pendingJob_def pendingTasks_def)
  moreover have r: "readyTaskNum (pendingJob (2 ^ 31)) = 0"
    by (simp add: pendingJob_def readyTaskNum_def)
  moreover have v: "sint (validTaskNum (pendingJob (2 ^ 31))) = - (2 ^ 31)"
    by (simp add: pendingJob_def pendingTasks_def validTaskNum_def)
  moreover have "\<not> readyTaskNum (pendingJob (2 ^ 31)) \<le>s validTaskNum (pendingJob (2 ^ 31))"
    using r v by (simp add: word_sle_eq)
  moreover have "jobReady (pendingJob (2 ^ 31))"
    using r by (simp add: jobReady_def pendingJob_def)
  moreover have "validJobFn (pendingJob (2 ^ 31)) \<noteq> None"
    using v by (simp add: validJobFn_def word_sless_alt pendingJob_def)
  ultimately show ?thesis by blast
qed

section \<open>Properties of the close-time reporting\<close>

lemma closeLoop_calls:
  "closeLoop uid now jobs (n, calls) =
     (n + length (filter (\<lambda>job. \<not> jobReady job) (map snd jobs)),
      calls @ concat (map (\<lambda>(k, job).
          [UpdateUnscheduleTaskCount (JobInfo.Name job) (sint (MinAvailable job - readyTaskNum job)),
           RegisterJobRetries (JobInfo.Name job),
           UpdateJobCondition job
             \<lparr>PodGroupCondition.Type = PodGroupUnschedulableType, Status = ConditionTrue,
              LastTransitionTime = now k, TransitionID = uid,
              Reason = NotEnoughResourcesReason,
              Message = string_of_int (sint (MinAvailable job - readyTaskNum job)) @ ''/''
                @ string_of_int (int (length (Tasks job))) @ '' tasks in gang unschedulable: ''
                @ FitError job\<rparr>])
        (enumerate n (filter (\<lambda>job. \<not> jobReady job) (map snd jobs)))))"
proof (induction jobs arbitrary: n calls)
  case Nil
  then show ?case by simp
next
  case (Cons a jobs)
  obtain k job where a: "a = (k, job)" by (cases a)
  show ?case
    by (simp add: a Cons.IH Let_def unschedulableMessage_def)
qed

text \<open>
  Claim C4. At session close the plugin makes, for every job that is not ready
  (\<^verbatim>\<open>readyTaskNum\<close> below \<^verbatim>\<open>MinAvailable\<close>) and in the order of the jobs, the calls
  \<^verbatim>\<open>UpdateUnscheduleTaskCount(J.Name, MinAvailable - readyTaskNum)\<close>,
  \<^verbatim>\<open>RegisterJobRetries(J.Name)\<close> and \<^verbatim>\<open>UpdateJobCondition\<close> with a
  \<^verbatim>\<open>PodGroupUnschedulable\<close> condition whose \<^verbatim>\<open>TransitionID\<close> is the session's id and
  whose message is \<^verbatim>\<open>A/B tasks in gang unschedulable: F\<close>, A the shortfall, B the number of
  the job's tasks and F its \<^verbatim>\<open>FitError\<close>; it makes no call for a ready job; its last
  call is \<^verbatim>\<open>UpdateUnscheduleJobCount\<close> with the number of jobs that are not ready.
\<close>

theorem OnSessionClose_reports_unready_jobs:
  "OnSessionClose ssn now =
     concat (map (\<lambda>(k, job).
          [UpdateUnscheduleTaskCount (JobInfo.Name job) (sint (MinAvailable job - readyTaskNum job)),
           RegisterJobRetries (JobInfo.Name job),
           UpdateJobCondition job
             \<lparr>PodGroupCondition.Type = PodGroupUnschedulableType, Status = ConditionTrue,
              LastTransitionTime = now k, TransitionID = Session.UID ssn,
              Reason = NotEnoughResourcesReason,
              Message = string_of_int (sint (MinAvailable job - readyTaskNum job)) @ ''/''
                @ string_of_int (int (length (Tasks job))) @ '' tasks in gang unschedulable: ''
                @ FitError job\<rparr>])
        (enumerate 0 (filter (\<lambda>job. \<not> jobReady job) (map snd (Jobs ssn)))))
     @ [UpdateUnscheduleJobCount
          (int (length (filter (\<lambda>job. \<not> jobReady job) (map snd (Jobs ssn)))))]
   \<and> (\<not> jobReady J) = (readyTaskNum J <s MinAvailable J)"
  by (auto simp add: OnSessionClose_def closeLoop_calls jobReady_def word_sle_eq word_sless_alt)

lemma readyTaskNum_pending_only:
  assumes "\<forall>(status, tasks) \<in> set (TaskStatusIndex J). status = Pending"
  shows "readyTaskNum J = 0"
proof -
  have "filter (\<lambda>(status, tasks). AllocatedStatus status \<or> status = Succeeded \<or> status = Pipelined)
          (TaskStatusIndex J) = []"
    using assms by (auto simp: filter_empty_conv)
  then show ?thesis by (simp add: readyTaskNum_count)
qed

text \<open>
  Claim C5, as the code has it. For a session whose only job has \<^verbatim>\<open>MinAvailable\<close> 3, two
  tasks, a status index with pending tasks only and no node delta, the calls at close are
  \<^verbatim>\<open>UpdateUnscheduleTaskCount(name, 3)\<close>, one \<^verbatim>\<open>RegisterJobRetries(name)\<close>, the
  condition with the message \<^verbatim>\<open>3/2 tasks in gang unschedulable: 0 nodes are available\<close>
  and \<^verbatim>\<open>UpdateUnscheduleJobCount(1)\<close>: pending tasks are not ready, so the shortfall
  is 3.
\<close>

theorem OnSessionClose_shortfall:
  assumes "Jobs ssn = [(k, J)]"
    and "MinAvailable J = 3"
    and "length (Tasks J) = 2"
    and "\<forall>(status, tasks) \<in> set (TaskStatusIndex J). status = Pending"
    and "NodesFitDelta J = []"
  shows "OnSessionClose ssn now =
     [UpdateUnscheduleTaskCount (JobInfo.Name J) 3,
      RegisterJobRetries (JobInfo.Name J),
      UpdateJobCondition J
        \<lparr>PodGroupCondition.Type = PodGroupUnschedulableType, Status = ConditionTrue,
         LastTransitionTime = now 0, TransitionID = Session.UID ssn,
         Reason = NotEnoughResourcesReason,
         Message = ''3/2 tasks in gang unschedulable: 0 nodes are available''\<rparr>,
      UpdateUnscheduleJobCount 1]"
proof -
  have r: "readyTaskNum J = 0" using assms(4) by (rule readyTaskNum_pending_only)
  have nr: "\<not> jobReady J" by (simp add: jobReady_def r assms(2) word_sle_eq)
  have fe: "FitError J = ''0 nodes are available''" by (simp add: FitError_def assms(5))
  show ?thesis
    by (simp add: OnSessionClose_def closeLoop_calls assms(1,2,3) nr r fe format_defs)
qed

theorem OnSessionClose_shortfall_witness:
  "OnSessionClose (testSession [(''J'', shortfallJob)]) (\<lambda>k. 0) =
     [UpdateUnscheduleTaskCount ''J'' 3,
      RegisterJobRetries ''J'',
      UpdateJobCondition shortfallJob
        \<lparr>PodGroupCondition.Type = PodGroupUnschedulableType, Status = ConditionTrue,
         LastTransitionTime = 0, TransitionID = ''ssn-1'',
         Reason = NotEnoughResourcesReason,
         Message = ''3/2 tasks in gang unschedulable: 0 nodes are available''\<rparr>,
      UpdateUnscheduleJobCount 1]"
  using OnSessionClose_shortfall [of "testSession [(''J'', shortfallJob)]" "''J''" shortfallJob "\<lambda>k. 0"]
  by (simp add: testSession_def shortfallJob_def scenario_defs)

text \<open>
  The claim as stated fails on the job of seed scenario 2: no condition published for it
  carries the message that starts with 1/2.
\<close>

theorem OnSessionClose_shortfall_counterexample:
  "MinAvailable shortfallJob = 3
   \<and> map (\<lambda>(uid, task). TaskInfo.Status task) (Tasks shortfallJob) = [Pending, Pending]
   \<and> NodesFitDelta shortfallJob = []
   \<and> \<not> (\<exists>jc. UpdateJobCondition shortfallJob jc
                \<in> set (OnSessionClose (testSession [(''J'', shortfallJob)]) (\<lambda>k. 0))
              \<and> PodGroupCondition.Message jc = ''1/2 tasks in gang unschedulable: 0 nodes are available'')"
  by (simp add: OnSessionClose_def testSession_def jobReady_def readyTaskNum_def word_sle_eq
        unschedulableMessage_def FitError_def format_defs shortfallJob_def scenario_defs)

section \<open>Properties of FitError\<close>

lemma set_update_cases:
  "x \<in> set (AList.update k v al) \<Longrightarrow> x = (k, v) \<or> x \<in> set al"
  by (induction al) (auto split: if_splits)

lemma incr_ok:
  assumes "reasons_ok r" and "category k"
  shows "reasons_ok (incr r k)"
proof -
  let ?v = "case map_of r k of None \<Rightarrow> 1 | Some c \<Rightarrow> c + 1"
  have d: "distinct (map fst (AList.update k ?v r))"
    using assms(1) by (simp add: reasons_ok_def distinct_update)
  have v: "0 < ?v" by (simp split: option.split)
  have "category k' \<and> 0 < c" if "(k', c) \<in> set (AList.update k ?v r)" for k' c
  proof -
    from that [THEN set_update_cases]
    have "(k', c) = (k, ?v) \<or> (k', c) \<in> set r" by blast
    then show ?thesis
    proof
      assume "(k', c) = (k, ?v)"
      with assms(2) v show ?thesis by simp
    next
      assume "(k', c) \<in> set r"
      with assms(1) show ?thesis unfolding reasons_ok_def by blast
    qed
  qed
  with d show ?thesis unfolding reasons_ok_def incr_def by blast
qed

lemma cnt_incr: "cnt (incr r k) k' = (if k' = k then cnt r k + 1 else cnt r k')"
  by (simp add: cnt_def incr_def update_conv' split: option.splits)

lemma category_simps: "category ''cpu''" "category ''memory''" "category ''GPU''"
  by (simp_all add: category_def)

lemma countReasons_ok: "reasons_ok r \<Longrightarrow> reasons_ok (countReasons v r)"
  by (simp add: countReasons_def Let_def incr_ok category_simps)

lemma keys_neq:
  "''cpu'' \<noteq> ''memory''" "''cpu'' \<noteq> ''GPU''" "''memory'' \<noteq> ''GPU''"
  "''memory'' \<noteq> ''cpu''" "''GPU'' \<noteq> ''cpu''" "''GPU'' \<noteq> ''memory''"
  by simp_all

lemma cnt_countReasons:
  "cnt (countReasons v r) ''cpu'' = cnt r ''cpu'' + (if Get v ResourceCPU < 0 then 1 else 0)"
  "cnt (countReasons v r) ''memory'' = cnt r ''memory'' + (if Get v ResourceMemory < 0 then 1 else 0)"
  "cnt (countReasons v r) ''GPU'' = cnt r ''GPU'' + (if Get v GPUResourceName < 0 then 1 else 0)"
  by (simp_all add: countReasons_def Let_def cnt_incr)

lemma fold_countReasons:
  "reasons_ok r \<Longrightarrow>
   reasons_ok (fold (\<lambda>(_, v) reasons. countReasons v reasons) nodes r)
   \<and> cnt (fold (\<lambda>(_, v) reasons. countReasons v reasons) nodes r) ''cpu''
       = cnt r ''cpu'' + insufficient ResourceCPU nodes
   \<and> cnt (fold (\<lambda>(_, v) reasons. countReasons v reasons) nodes r) ''memory''
       = cnt r ''memory'' + insufficient ResourceMemory nodes
   \<and> cnt (fold (\<lambda>(_, v) reasons. countReasons v reasons) nodes r) ''GPU''
       = cnt r ''GPU'' + insufficient GPUResourceName nodes"
proof (induction nodes arbitrary: r)
  case Nil
  then show ?case by (simp add: insufficient_def)
next
  case (Cons a nodes)
  obtain n v where a: "a = (n, v)" by (cases a)
  from Cons.prems have ok: "reasons_ok (countReasons v r)" by (rule countReasons_ok)
  show ?case
    using Cons.IH [OF ok] by (simp add: a cnt_countReasons insufficient_def)
qed

lemma reasons_set:
  assumes "reasons_ok r"
  shows "set r =
    set ((if cnt r ''cpu'' \<noteq> 0 then [(''cpu'', cnt r ''cpu'')] else [])
       @ (if cnt r ''memory'' \<noteq> 0 then [(''memory'', cnt r ''memory'')] else [])
       @ (if cnt r ''GPU'' \<noteq> 0 then [(''GPU'', cnt r ''GPU'')] else []))"
    (is "_ = set ?spec")
proof -
  have d: "distinct (map fst r)" using assms by (simp add: reasons_ok_def)
  have mem: "(k, c) \<in> set r \<longleftrightarrow> map_of r k = Some c" for k c
    using d by simp
  have spec: "x \<in> set ?spec \<longleftrightarrow> category (fst x) \<and> snd x = cnt r (fst x) \<and> snd x \<noteq> 0" for x
    by (cases x; cases "cnt r ''cpu'' = 0"; cases "cnt r ''memory'' = 0"; cases "cnt r ''GPU'' = 0")
       (auto simp: category_def)
  have "x \<in> set r \<longleftrightarrow> category (fst x) \<and> snd x = cnt r (fst x) \<and> snd x \<noteq> 0" for x
  proof (cases x)
    case (Pair k c)
    show ?thesis
    proof
      assume x: "x \<in> set r"
      with assms Pair have "category k \<and> 0 < c" unfolding reasons_ok_def by blast
      moreover from x Pair mem have "cnt r k = c" by (simp add: cnt_def)
      ultimately show "category (fst x) \<and> snd x = cnt r (fst x) \<and> snd x \<noteq> 0"
        using Pair by simp
    next
      assume "category (fst x) \<and> snd x = cnt r (fst x) \<and> snd x \<noteq> 0"
      with Pair have "cnt r k = c" "c \<noteq> 0" by simp_all
      then have "map_of r k = Some c" by (simp add: cnt_def split: option.splits)
      with mem Pair show "x \<in> set r" by simp
    qed
  qed
  with spec show ?thesis by blast
qed

lemma sort_cong_mset: "mset xs = mset ys \<Longrightarrow> sort xs = sort ys"
  by (metis properties_for_sort mset_sort sorted_sort)

lemma distinct_categories:
  "distinct ((if (a::nat) \<noteq> 0 then [(''cpu'', a)] else [])
       @ (if b \<noteq> 0 then [(''memory'', b)] else [])
       @ (if c \<noteq> 0 then [(''GPU'', c)] else []))"
  by (cases "a = 0"; cases "b = 0"; cases "c = 0"; simp)

lemma map_categories:
  "map (\<lambda>(k, v). string_of_int (int v) @ '' insufficient '' @ k)
     ((if (a::nat) \<noteq> 0 then [(''cpu'', a)] else [])
       @ (if b \<noteq> 0 then [(''memory'', b)] else [])
       @ (if c \<noteq> 0 then [(''GPU'', c)] else [])) =
       (if a \<noteq> 0 then [string_of_int (int a) @ '' insufficient cpu''] else [])
       @ (if b \<noteq> 0 then [string_of_int (int b) @ '' insufficient memory''] else [])
       @ (if c \<noteq> 0 then [string_of_int (int c) @ '' insufficient GPU''] else [])"
  by (cases "a = 0"; cases "b = 0"; cases "c = 0"; simp)

lemma sortReasonsHistogram_ok:
  assumes "reasons_ok r"
  shows "sortReasonsHistogram r =
     sort ((if cnt r ''cpu'' \<noteq> 0 then [string_of_int (int (cnt r ''cpu'')) @ '' insufficient cpu''] else [])
       @ (if cnt r ''memory'' \<noteq> 0 then [string_of_int (int (cnt r ''memory'')) @ '' insufficient memory''] else [])
       @ (if cnt r ''GPU'' \<noteq> 0 then [string_of_int (int (cnt r ''GPU'')) @ '' insufficient GPU''] else []))"
proof -
  let ?spec = "(if cnt r ''cpu'' \<noteq> 0 then [(''cpu'', cnt r ''cpu'')] else [])
       @ (if cnt r ''memory'' \<noteq> 0 then [(''memory'', cnt r ''memory'')] else [])
       @ (if cnt r ''GPU'' \<noteq> 0 then [(''GPU'', cnt r ''GPU'')] else [])"
  let ?fmt = "\<lambda>(k, v). string_of_int (int v) @ '' insufficient '' @ k"
  have "distinct (map fst r)" using assms by (simp add: reasons_ok_def)
  then have "distinct r" by (simp add: distinct_map)
  moreover have "distinct ?spec" by (rule distinct_categories)
  moreover have "set r = set ?spec" using assms by (rule reasons_set)
  ultimately have "mset r = mset ?spec" by (simp only: set_eq_iff_mset_eq_distinct)
  then have "mset (map ?fmt r) = mset (map ?fmt ?spec)"
    by (simp only: mset_map)
  then have "sort (map ?fmt r) = sort (map ?fmt ?spec)"
    by (rule sort_cong_mset)
  then show ?thesis
    unfolding sortReasonsHistogram_def map_categories .
qed

text \<open>
  Claim C6. With no node delta recorded \<^verbatim>\<open>FitError\<close> returns \<^verbatim>\<open>0 nodes are available\<close>.
  Otherwise it returns \<^verbatim>\<open>0/N nodes are available, S.\<close>, where N is the number of deltas
  and S joins with a comma and a blank the strings \<^verbatim>\<open>k insufficient cpu\<close>,
  \<^verbatim>\<open>m insufficient memory\<close> and \<^verbatim>\<open>g insufficient GPU\<close> for the numbers k, m, g of nodes
  whose cpu, memory and GPU delta is negative; a category is left out when its number is
  zero, and the strings are sorted.
\<close>

theorem FitError_histogram: "FitError J = spec_FitError J"
proof (cases "NodesFitDelta J = []")
  case True
  then show ?thesis by (simp add: FitError_def spec_FitError_def)
next
  case False
  let ?reasons = "fold (\<lambda>(_, v) reasons. countReasons v reasons) (NodesFitDelta J) []"
  have ok0: "reasons_ok []" by (simp add: reasons_ok_def)
  have c0: "cnt [] k = 0" for k by (simp add: cnt_def)
  note f = fold_countReasons [OF ok0, of "NodesFitDelta J"]
  from f have ok: "reasons_ok ?reasons" by (rule conjunct1)
  from f have c: "cnt ?reasons ''cpu'' = insufficient ResourceCPU (NodesFitDelta J)"
    "cnt ?reasons ''memory'' = insufficient ResourceMemory (NodesFitDelta J)"
    "cnt ?reasons ''GPU'' = insufficient GPUResourceName (NodesFitDelta J)"
    by (simp_all only: c0 add_0)
  have len: "(length (NodesFitDelta J) = 0) = False" "(NodesFitDelta J = []) = False"
    using False by simp_all
  show ?thesis
    unfolding FitError_def spec_FitError_def Let_def sortReasonsHistogram_ok [OF ok] c len if_False
    by (rule refl)
qed

text \<open>Seed scenario 6, through the theorem.\<close>

theorem FitError_histogram_witness:
  "FitError unfitJob =
     ''0/3 nodes are available, 1 insufficient GPU, 1 insufficient memory, 2 insufficient cpu.''"
proof -
  have n: "NodesFitDelta unfitJob = nodes3" by (simp add: unfitJob_def)
  have k: "insufficient ResourceCPU nodes3 = 2" by (simp add: insufficient_def nodes3_def)
  have m: "insufficient ResourceMemory nodes3 = 1" by (simp add: insufficient_def nodes3_def)
  have g: "insufficient GPUResourceName nodes3 = 1" by (simp add: insufficient_def nodes3_def)
  have l: "length nodes3 = 3" "(nodes3 = []) = False" by (simp_all add: nodes3_def)
  have num: "string_of_int (int 1) = ''1''" "string_of_int (int 2) = ''2''"
    "string_of_int (int 3) = ''3''"
    by (simp_all add: format_defs)
  have s: "sort [''2 insufficient cpu'', ''1 insufficient memory'', ''1 insufficient GPU'']
           = [''1 insufficient GPU'', ''1 insufficient memory'', ''2 insufficient cpu'']"
    by simp
  have "FitError unfitJob =
      ''0/'' @ ''3'' @ '' nodes are available, ''
        @ Join (sort [''2'' @ '' insufficient cpu'', ''1'' @ '' insufficient memory'',
                      ''1'' @ '' insufficient GPU'']) '', '' @ ''.''"
    unfolding FitError_histogram [of unfitJob] spec_FitError_def n k m g l Let_def num
    by simp
  also have "\<dots> = ''0/3 nodes are available, 1 insufficient GPU, 1 insufficient memory, 2 insufficient cpu.''"
    using s by simp
  finally show ?thesis .
qed

end
